theory Spec2Isabelle
  imports Main "HOL-Library.AList"
begin

section \<open>The signalling server of app.py\<close>

text \<open>
  The server keeps one global dictionary \<^verbatim>\<open>rooms\<close>
  (\<^verbatim>\<open>{ room_id: { user_id: { 'username': ..., 'sid': str } } }\<close>) and answers
  Socket.IO events. Python dictionaries keep insertion order, and the handlers depend on
  it (the disconnect scan stops at the first match, the user lists are built by
  iteration), so a dictionary is an association list with distinct keys:
  \<^item> \<^verbatim>\<open>d[k]\<close> is \<open>map_of d k\<close> (\<open>None\<close> where Python raises KeyError),
  \<^item> \<^verbatim>\<open>d[k] = v\<close> is \<open>AList.update k v d\<close> (in place for a known key, appended
    for a new one),
  \<^item> \<^verbatim>\<open>del d[k]\<close> is \<open>AList.delete k d\<close>, \<^verbatim>\<open>len(d)\<close> is \<open>length d\<close>,
    \<^verbatim>\<open>k in d\<close> is \<open>k \<in> set (map fst d)\<close>.
\<close>

subsection \<open>Values\<close>

text \<open>
  Outbound payloads are the dictionaries the handlers build. A field of an inbound
  payload is a JSON string, array or object. A string can be a dictionary key; an array
  or an object is a Python list or dict, which is unhashable: using it as a key, or
  testing it with \<^verbatim>\<open>in\<close> against a dictionary, raises TypeError. Whatever the
  field is, it can be stored and sent back as it came (\<open>echo\<close>). \<^verbatim>\<open>data['k']\<close> on a
  missing field raises KeyError.
\<close>

datatype jv = JNone | JStr string | JInt nat | JList "jv list" | JDict "(string \<times> jv) list"

datatype field = Str string | Arr "jv list" | Obj "(string \<times> jv) list"

type_synonym data = "string \<rightharpoonup> field"

datatype error = KeyError string | TypeError | ValueError

fun echo :: "field \<Rightarrow> jv" where
  "echo (Str s) = JStr s"
| "echo (Arr xs) = JList xs"
| "echo (Obj kvs) = JDict kvs"

fun key_of :: "field \<Rightarrow> string option" where
  \<comment> \<open>the field as a dictionary key, \<open>None\<close> where hashing it raises TypeError\<close>
  "key_of (Str s) = Some s"
| "key_of (Arr xs) = None"
| "key_of (Obj kvs) = None"

fun truthy :: "field \<Rightarrow> bool" where
  \<comment> \<open>Python's truth value: the empty string, list and dict are false\<close>
  "truthy (Str s) = (s \<noteq> [])"
| "truthy (Arr xs) = (xs \<noteq> [])"
| "truthy (Obj kvs) = (kvs \<noteq> [])"

subsection \<open>The registry and the transport\<close>

record member =
  username :: jv
  sid :: string

type_synonym room = "(string \<times> member) list"

type_synonym registry = "(string \<times> room) list"

text \<open>
  What Flask-SocketIO contributes is a state of its own, kept apart from \<^verbatim>\<open>rooms\<close>:
  the connections of the namespace and, for every room name, the connections in that
  room. A connection enters the room named by its own id when it connects, and the
  library takes it out of every room after the disconnect handler has run.
  \<^item> \<^verbatim>\<open>join_room(r)\<close> puts the requesting connection into room \<open>r\<close>. For a room named
    by the id of a live connection the outcome depends on the version of the library: it
    raises ValueError, or it admits the connection (\<open>admits\<close>).
  \<^item> \<^verbatim>\<open>leave_room(r)\<close> takes the requesting connection out of room \<open>r\<close>.
  \<^item> \<^verbatim>\<open>emit(e, p, room=r, skip_sid=c)\<close> goes to every connection that is in room \<open>r\<close>
    at that moment, \<open>c\<close> excepted. The library reads the room with \<^verbatim>\<open>to or room\<close>, so
    the empty string stands for no room at all and the message goes to every connection
    of the namespace.
  \<^item> \<^verbatim>\<open>emit(e, p)\<close> without a room answers the connection whose event is being
    handled, which is live at that moment.
  An emission records the connections it is sent to. While the disconnect handler runs,
  the closing connection is still in its rooms, so a broadcast of that handler is
  addressed to it as well.
\<close>

record transport =
  connected :: "string set"
  members :: "string \<Rightarrow> string set"
  admits :: bool

record emission =
  event :: string
  payload :: jv
  recipients :: "string set"

record server =
  rooms :: registry
  sio :: transport

definition init :: server where
  "init = \<lparr>rooms = [], sio = \<lparr>connected = {}, members = (\<lambda>r. {}), admits = False\<rparr>\<rparr>"

definition connect :: "string \<Rightarrow> transport \<Rightarrow> transport" where
  "connect c t = t\<lparr>connected := insert c (connected t),
                    members := (members t)(c := insert c (members t c))\<rparr>"

definition close :: "string \<Rightarrow> transport \<Rightarrow> transport" where
  "close c t = t\<lparr>connected := connected t - {c}, members := (\<lambda>r. members t r - {c})\<rparr>"

definition join_room :: "string \<Rightarrow> string \<Rightarrow> transport \<Rightarrow> error + transport" where
  "join_room request_sid r t =
     (if r \<in> connected t \<and> \<not> admits t then Inl ValueError
      else Inr (t\<lparr>members := (members t)(r := insert request_sid (members t r))\<rparr>))"

definition leave_room :: "string \<Rightarrow> string \<Rightarrow> transport \<Rightarrow> transport" where
  "leave_room request_sid r t = t\<lparr>members := (members t)(r := members t r - {request_sid})\<rparr>"

definition emit :: "string \<Rightarrow> jv \<Rightarrow> string \<Rightarrow> emission" where
  \<comment> \<open>\<^verbatim>\<open>emit(e, p)\<close>: to the requesting connection\<close>
  "emit e p request_sid = \<lparr>event = e, payload = p, recipients = {request_sid}\<rparr>"

definition emit_room :: "transport \<Rightarrow> string \<Rightarrow> jv \<Rightarrow> string \<Rightarrow> string option \<Rightarrow> emission" where
  \<comment> \<open>\<^verbatim>\<open>emit(e, p, room=r)\<close> and \<^verbatim>\<open>emit(e, p, room=r, skip_sid=c)\<close>\<close>
  "emit_room t e p r skip_sid =
     \<lparr>event = e, payload = p,
      recipients = (if r = [] then connected t else members t r)
                   - (case skip_sid of None \<Rightarrow> {} | Some c \<Rightarrow> {c})\<rparr>"

subsection \<open>Lifecycle handlers\<close>

text \<open>
  A handler returns the new state and what it emitted, or the exception it raised
  together with the state at that moment: a raise does not undo what the handler has
  written before. No handler emits before it raises.

  \<^verbatim>\<open>handle_disconnect\<close>: the two nested loops look for the first room, and in it the
  first user, whose stored \<^verbatim>\<open>sid\<close> is the disconnected connection; the body removes
  that one member and returns.
\<close>

fun find_user :: "string \<Rightarrow> room \<Rightarrow> (string \<times> member) option" where
  "find_user c [] = None"
| "find_user c ((user_id, info) # r) =
     (if sid info = c then Some (user_id, info) else find_user c r)"

fun scan_rooms :: "string \<Rightarrow> registry \<Rightarrow> (string \<times> room \<times> string \<times> member) option" where
  "scan_rooms c [] = None"
| "scan_rooms c ((room_id, room) # rs) =
     (case find_user c room of
        Some (user_id, info) \<Rightarrow> Some (room_id, room, user_id, info)
      | None \<Rightarrow> scan_rooms c rs)"

definition user_left :: "string \<Rightarrow> jv \<Rightarrow> jv" where
  "user_left user_id uname = JDict [(''userId'', JStr user_id), (''username'', uname)]"

definition remove_member :: "string \<Rightarrow> string \<Rightarrow> room \<Rightarrow> registry \<Rightarrow> registry" where
  \<comment> \<open>\<^verbatim>\<open>del room[user_id]\<close>, then \<^verbatim>\<open>if not room: del rooms[room_id]\<close>\<close>
  "remove_member room_id user_id room rs =
     (let room' = AList.delete user_id room;
          rs' = AList.update room_id room' rs
      in if room' = [] then AList.delete room_id rs' else rs')"

definition handle_disconnect :: "string \<Rightarrow> server \<Rightarrow> server \<times> emission list" where
  "handle_disconnect request_sid s =
     (case scan_rooms request_sid (rooms s) of
        None \<Rightarrow> (s, [])
      | Some (room_id, room, user_id, info) \<Rightarrow>
          (s\<lparr>rooms := remove_member room_id user_id room (rooms s)\<rparr>,
           [emit_room (sio s) ''user-left'' (user_left user_id (username info))
              room_id None]))"

definition existing_users :: "room \<Rightarrow> jv list" where
  "existing_users room =
     map (\<lambda>(uid, info). JDict [(''userId'', JStr uid), (''username'', username info)]) room"

definition room_full :: jv where
  "room_full = JDict [(''message'', JStr ''Room is full (max 6 users)'')]"

definition user_joined :: "string \<Rightarrow> jv \<Rightarrow> jv" where
  "user_joined user_id uname = JDict [(''userId'', JStr user_id), (''username'', uname)]"

definition handle_join_room ::
  "string \<Rightarrow> data \<Rightarrow> server \<Rightarrow> error \<times> server + server \<times> emission list" where
  "handle_join_room request_sid data s =
     (case data ''roomId'' of None \<Rightarrow> Inl (KeyError ''roomId'', s) | Some room_v \<Rightarrow>
      case data ''userId'' of None \<Rightarrow> Inl (KeyError ''userId'', s) | Some user_v \<Rightarrow>
      case data ''username'' of None \<Rightarrow> Inl (KeyError ''username'', s) | Some uname \<Rightarrow>
      case key_of room_v of None \<Rightarrow> Inl (TypeError, s) | Some room_id \<Rightarrow>
        let rooms1 = (if room_id \<notin> set (map fst (rooms s))
                      then AList.update room_id [] (rooms s) else rooms s);
            s1 = s\<lparr>rooms := rooms1\<rparr>
        in case map_of rooms1 room_id of None \<Rightarrow> Inl (KeyError room_id, s1) | Some room \<Rightarrow>
          if length room \<ge> 6
          then Inr (s1, [emit ''room-full'' room_full request_sid])
          else
            let existing = existing_users room
            in case key_of user_v of None \<Rightarrow> Inl (TypeError, s1) | Some user_id \<Rightarrow>
              let room' = AList.update user_id \<lparr>username = echo uname, sid = request_sid\<rparr> room;
                  s2 = s1\<lparr>rooms := AList.update room_id room' rooms1\<rparr>
              in case join_room request_sid room_id (sio s) of
                   Inl e \<Rightarrow> Inl (e, s2)
                 | Inr g \<Rightarrow>
                     Inr (s2\<lparr>sio := g\<rparr>,
                          [emit ''existing-users'' (JDict [(''users'', JList existing)]) request_sid,
                           emit_room g ''user-joined'' (user_joined user_id (echo uname))
                             room_id (Some request_sid)]))"

definition resolve ::
  "registry \<Rightarrow> field \<Rightarrow> field \<Rightarrow> error + (string \<times> room \<times> string \<times> member) option" where
  \<comment> \<open>\<^verbatim>\<open>room_id in rooms and user_id in rooms[room_id]\<close>: the second test is made only
      when the first holds; \<open>None\<close> when the condition is false\<close>
  "resolve rs room_v user_v =
     (case key_of room_v of None \<Rightarrow> Inl TypeError | Some room_id \<Rightarrow>
      case map_of rs room_id of None \<Rightarrow> Inr None | Some room \<Rightarrow>
      case key_of user_v of None \<Rightarrow> Inl TypeError | Some user_id \<Rightarrow>
      case map_of room user_id of None \<Rightarrow> Inr None
      | Some info \<Rightarrow> Inr (Some (room_id, room, user_id, info)))"

definition handle_leave_room ::
  "string \<Rightarrow> data \<Rightarrow> server \<Rightarrow> error \<times> server + server \<times> emission list" where
  "handle_leave_room request_sid data s =
     (case data ''roomId'' of None \<Rightarrow> Inl (KeyError ''roomId'', s) | Some room_v \<Rightarrow>
      case data ''userId'' of None \<Rightarrow> Inl (KeyError ''userId'', s) | Some user_v \<Rightarrow>
      case resolve (rooms s) room_v user_v of
        Inl e \<Rightarrow> Inl (e, s)
      | Inr None \<Rightarrow> Inr (s, [])
      | Inr (Some (room_id, room, user_id, info)) \<Rightarrow>
          let g = leave_room request_sid room_id (sio s)
          in Inr (s\<lparr>rooms := remove_member room_id user_id room (rooms s), sio := g\<rparr>,
                  [emit_room g ''user-left'' (user_left user_id (username info))
                     room_id None]))"

subsection \<open>The signalling router\<close>

text \<open>
  The relays send with \<^verbatim>\<open>emit(..., room=target_sid)\<close>: a broadcast to the room named by
  the stored connection id.
\<close>

definition handle_offer ::
  "string \<Rightarrow> data \<Rightarrow> server \<Rightarrow> error \<times> server + server \<times> emission list" where
  "handle_offer request_sid data s =
     (case data ''roomId'' of None \<Rightarrow> Inl (KeyError ''roomId'', s) | Some room_v \<Rightarrow>
      case data ''targetUserId'' of None \<Rightarrow> Inl (KeyError ''targetUserId'', s)
      | Some target_v \<Rightarrow>
      case resolve (rooms s) room_v target_v of
        Inl e \<Rightarrow> Inl (e, s)
      | Inr None \<Rightarrow> Inr (s, [])
      | Inr (Some (room_id, room, target_user_id, info)) \<Rightarrow>
          (case data ''offer'' of None \<Rightarrow> Inl (KeyError ''offer'', s) | Some offer \<Rightarrow>
           case data ''fromUserId'' of None \<Rightarrow> Inl (KeyError ''fromUserId'', s)
           | Some from_id \<Rightarrow>
           case data ''fromUsername'' of None \<Rightarrow> Inl (KeyError ''fromUsername'', s)
           | Some from_name \<Rightarrow>
             Inr (s, [emit_room (sio s) ''offer''
                        (JDict [(''offer'', echo offer), (''fromUserId'', echo from_id),
                                (''fromUsername'', echo from_name)])
                        (sid info) None])))"

definition handle_answer ::
  "string \<Rightarrow> data \<Rightarrow> server \<Rightarrow> error \<times> server + server \<times> emission list" where
  "handle_answer request_sid data s =
     (case data ''roomId'' of None \<Rightarrow> Inl (KeyError ''roomId'', s) | Some room_v \<Rightarrow>
      case data ''targetUserId'' of None \<Rightarrow> Inl (KeyError ''targetUserId'', s)
      | Some target_v \<Rightarrow>
      case resolve (rooms s) room_v target_v of
        Inl e \<Rightarrow> Inl (e, s)
      | Inr None \<Rightarrow> Inr (s, [])
      | Inr (Some (room_id, room, target_user_id, info)) \<Rightarrow>
          (case data ''answer'' of None \<Rightarrow> Inl (KeyError ''answer'', s) | Some answer \<Rightarrow>
           case data ''fromUserId'' of None \<Rightarrow> Inl (KeyError ''fromUserId'', s)
           | Some from_id \<Rightarrow>
             Inr (s, [emit_room (sio s) ''answer''
                        (JDict [(''answer'', echo answer), (''fromUserId'', echo from_id)])
                        (sid info) None])))"

definition handle_ice_candidate ::
  "string \<Rightarrow> data \<Rightarrow> server \<Rightarrow> error \<times> server + server \<times> emission list" where
  "handle_ice_candidate request_sid data s =
     (case data ''roomId'' of None \<Rightarrow> Inl (KeyError ''roomId'', s) | Some room_v \<Rightarrow>
      case data ''targetUserId'' of None \<Rightarrow> Inl (KeyError ''targetUserId'', s)
      | Some target_v \<Rightarrow>
      case resolve (rooms s) room_v target_v of
        Inl e \<Rightarrow> Inl (e, s)
      | Inr None \<Rightarrow> Inr (s, [])
      | Inr (Some (room_id, room, target_user_id, info)) \<Rightarrow>
          (case data ''candidate'' of None \<Rightarrow> Inl (KeyError ''candidate'', s)
           | Some candidate \<Rightarrow>
           case data ''fromUserId'' of None \<Rightarrow> Inl (KeyError ''fromUserId'', s)
           | Some from_id \<Rightarrow>
             Inr (s, [emit_room (sio s) ''ice-candidate''
                        (JDict [(''candidate'', echo candidate), (''fromUserId'', echo from_id)])
                        (sid info) None])))"

subsection \<open>Room introspection\<close>

definition room_info :: "jv \<Rightarrow> nat \<Rightarrow> jv list \<Rightarrow> jv" where
  "room_info room_id n names =
     JDict [(''roomId'', room_id), (''userCount'', JInt n), (''users'', JList names)]"

definition handle_get_room_info ::
  "string \<Rightarrow> data \<Rightarrow> server \<Rightarrow> error \<times> server + server \<times> emission list" where
  \<comment> \<open>\<^verbatim>\<open>data.get('roomId')\<close> is \<^verbatim>\<open>None\<close> for a missing field, and \<^verbatim>\<open>None\<close> is false;
      \<^verbatim>\<open>room_id in rooms\<close> is evaluated only for a true \<^verbatim>\<open>room_id\<close>\<close>
  "handle_get_room_info request_sid data s =
     (case data ''roomId'' of
        None \<Rightarrow> Inr (s, [emit ''room-info'' (room_info JNone 0 []) request_sid])
      | Some room_v \<Rightarrow>
          if truthy room_v
          then (case key_of room_v of None \<Rightarrow> Inl (TypeError, s) | Some room_id \<Rightarrow>
                case map_of (rooms s) room_id of
                  Some room \<Rightarrow>
                    Inr (s, [emit ''room-info''
                               (room_info (echo room_v) (length room)
                                  (map (\<lambda>(uid, info). username info) room))
                               request_sid])
                | None \<Rightarrow> Inr (s, [emit ''room-info'' (room_info (echo room_v) 0 []) request_sid]))
          else Inr (s, [emit ''room-info'' (room_info (echo room_v) 0 []) request_sid]))"

subsection \<open>Events and runs\<close>

text \<open>
  One inbound event is handled at a time. When a handler raises, the server goes on with
  the state the handler left.
\<close>

datatype inbound =
    Connect string
  | Disconnect string
  | JoinRoom string data
  | LeaveRoom string data
  | Offer string data
  | Answer string data
  | IceCandidate string data
  | GetRoomInfo string data

definition settle :: "error \<times> server + server \<times> emission list \<Rightarrow> server \<times> emission list" where
  "settle r = (case r of Inl (e, s') \<Rightarrow> (s', []) | Inr out \<Rightarrow> out)"

fun step :: "inbound \<Rightarrow> server \<Rightarrow> server \<times> emission list" where
  "step (Connect c) s = (s\<lparr>sio := connect c (sio s)\<rparr>, [])"
| "step (Disconnect c) s =
     (let (s', out) = handle_disconnect c s in (s'\<lparr>sio := close c (sio s')\<rparr>, out))"
| "step (JoinRoom c d) s = settle (handle_join_room c d s)"
| "step (LeaveRoom c d) s = settle (handle_leave_room c d s)"
| "step (Offer c d) s = settle (handle_offer c d s)"
| "step (Answer c d) s = settle (handle_answer c d s)"
| "step (IceCandidate c d) s = settle (handle_ice_candidate c d s)"
| "step (GetRoomInfo c d) s = settle (handle_get_room_info c d s)"

fun run :: "inbound list \<Rightarrow> server \<Rightarrow> server" where
  "run [] s = s"
| "run (e # es) s = run es (fst (step e s))"

subsection \<open>Properties of the registry\<close>

text \<open>
  A registry is a dictionary of dictionaries: keys are distinct at both levels. The data
  model asks two more properties of it: no room is empty, no room has more than six
  members.
\<close>

definition wf_rooms :: "registry \<Rightarrow> bool" where
  "wf_rooms rs \<longleftrightarrow>
     distinct (map fst rs) \<and> list_all (\<lambda>room. distinct (map fst room)) (map snd rs)"

definition no_empty_rooms :: "registry \<Rightarrow> bool" where
  "no_empty_rooms rs \<longleftrightarrow> list_all (\<lambda>room. room \<noteq> []) (map snd rs)"

definition within_capacity :: "registry \<Rightarrow> bool" where
  "within_capacity rs \<longleftrightarrow> list_all (\<lambda>room. length room \<le> 6) (map snd rs)"

definition registry_ok :: "registry \<Rightarrow> bool" where
  "registry_ok rs \<longleftrightarrow> wf_rooms rs \<and> within_capacity rs"

definition is_member :: "registry \<Rightarrow> string \<Rightarrow> string \<Rightarrow> bool" where
  \<comment> \<open>\<^verbatim>\<open>room_id in rooms and user_id in rooms[room_id]\<close>\<close>
  "is_member rs room_id user_id =
     (case map_of rs room_id of None \<Rightarrow> False | Some room \<Rightarrow> user_id \<in> set (map fst room))"

definition members_of :: "registry \<Rightarrow> string \<Rightarrow> room" where
  \<comment> \<open>the members of a room, none for a room that is not in the registry\<close>
  "members_of rs room_id = (case map_of rs room_id of None \<Rightarrow> [] | Some room \<Rightarrow> room)"

definition memberships :: "string \<Rightarrow> registry \<Rightarrow> (string \<times> string) list" where
  \<comment> \<open>the (room, user) pairs stored with a connection id\<close>
  "memberships c rs =
     concat (map (\<lambda>(room_id, room).
                    map (\<lambda>(user_id, info). (room_id, user_id))
                        (filter (\<lambda>(user_id, info). sid info = c) room)) rs)"

subsection \<open>Payloads and traces used in the examples\<close>

definition join_data :: "string \<Rightarrow> string \<Rightarrow> string \<Rightarrow> data" where
  "join_data room_id user_id uname =
     [''roomId'' \<mapsto> Str room_id, ''userId'' \<mapsto> Str user_id, ''username'' \<mapsto> Str uname]"

definition leave_data :: "string \<Rightarrow> string \<Rightarrow> data" where
  "leave_data room_id user_id = [''roomId'' \<mapsto> Str room_id, ''userId'' \<mapsto> Str user_id]"

definition relay_data :: "string \<Rightarrow> string \<Rightarrow> string \<Rightarrow> string \<Rightarrow> string \<Rightarrow> data" where
  "relay_data field room_id target from_id body =
     [''roomId'' \<mapsto> Str room_id, ''targetUserId'' \<mapsto> Str target, ''fromUserId'' \<mapsto> Str from_id,
      ''fromUsername'' \<mapsto> Str ''Ann'', field \<mapsto> Str body]"

definition six_joins :: "inbound list" where
  "six_joins =
     [Connect ''c1'', JoinRoom ''c1'' (join_data ''R'' ''u1'' ''Ann''),
      Connect ''c2'', JoinRoom ''c2'' (join_data ''R'' ''u2'' ''Bob''),
      Connect ''c3'', JoinRoom ''c3'' (join_data ''R'' ''u3'' ''Cy''),
      Connect ''c4'', JoinRoom ''c4'' (join_data ''R'' ''u4'' ''Di''),
      Connect ''c5'', JoinRoom ''c5'' (join_data ''R'' ''u5'' ''Ed''),
      Connect ''c6'', JoinRoom ''c6'' (join_data ''R'' ''u6'' ''Flo''), Connect ''c7'']"

definition one_join :: "inbound list" where
  "one_join = [Connect ''c1'', JoinRoom ''c1'' (join_data ''R'' ''u1'' ''Ann''),
               Connect ''c2'', Connect ''c9'']"

definition two_joins :: "inbound list" where
  "two_joins = [Connect ''c1'', JoinRoom ''c1'' (join_data ''R'' ''u1'' ''Ann''),
                Connect ''c2'', JoinRoom ''c2'' (join_data ''R'' ''u2'' ''Bob''),
                Connect ''c3'', Connect ''c9'']"

definition join_unnamed_room :: "inbound list" where
  "join_unnamed_room = [Connect ''c1'', JoinRoom ''c1'' (join_data [] ''u1'' ''Ann''), Connect ''c2'']"

definition unhashable_join :: data where
  "unhashable_join = [''roomId'' \<mapsto> Str ''N'', ''userId'' \<mapsto> Arr [], ''username'' \<mapsto> Str ''Ann'']"

definition two_ids_one_leave :: "inbound list" where
  "two_ids_one_leave =
     [Connect ''a'', Connect ''b'',
      JoinRoom ''a'' (join_data ''R'' ''A'' ''Ann''), JoinRoom ''a'' (join_data ''R'' ''A2'' ''Ann''),
      LeaveRoom ''a'' (leave_data ''R'' ''A2'')]"

definition desync_two_members :: "inbound list" where
  "desync_two_members =
     [Connect ''a'', Connect ''b'',
      JoinRoom ''a'' (join_data ''R'' ''A'' ''Ann''), JoinRoom ''a'' (join_data ''R'' ''A2'' ''Ann''),
      LeaveRoom ''a'' (leave_data ''R'' ''A2''), JoinRoom ''b'' (join_data ''R'' ''B'' ''Bob'')]"

definition stale_member :: "inbound list" where
  "stale_member =
     [Connect ''a'', Connect ''b'',
      JoinRoom ''a'' (join_data ''R'' ''A'' ''Ann''), JoinRoom ''a'' (join_data ''R'' ''A2'' ''Ann''),
      JoinRoom ''b'' (join_data ''R'' ''B'' ''Bob''), Disconnect ''a'']"

section \<open>Dictionaries as association lists\<close>

lemma list_all_update:
  "P v \<Longrightarrow> list_all P (map snd al) \<Longrightarrow> list_all P (map snd (AList.update k v al))"
  by (induction al) auto

lemma list_all_delete:
  "list_all P (map snd al) \<Longrightarrow> list_all P (map snd (AList.delete k al))"
  by (induction al) auto

lemma list_all_lookup:
  "list_all P (map snd al) \<Longrightarrow> map_of al k = Some v \<Longrightarrow> P v"
  by (induction al) (auto split: if_splits)

lemma length_update_le: "length (AList.update k v al) \<le> Suc (length al)"
  by (induction al) auto

lemma length_update_known:
  "k \<in> set (map fst al) \<Longrightarrow> length (AList.update k v al) = length al"
  by (induction al) auto

lemma keys_update_known:
  "k \<in> set (map fst al) \<Longrightarrow> map fst (AList.update k v al) = map fst al"
  by (induction al) auto

lemma keys_iff_lookup: "k \<in> set (map fst al) \<longleftrightarrow> map_of al k \<noteq> None"
  by (simp add: map_of_eq_None_iff)




section \<open>What the handlers compute\<close>

lemma handle_join_room_eq:
  assumes "d ''roomId'' = Some (Str rid)" "d ''userId'' = Some (Str uid)" "d ''username'' = Some un"
  shows "handle_join_room c d s =
    (if 6 \<le> length (members_of (rooms s) rid)
     then Inr (s, [emit ''room-full'' room_full c])
     else (case join_room c rid (sio s) of
             Inl e \<Rightarrow>
               Inl (e, s\<lparr>rooms := AList.update rid
                        (AList.update uid \<lparr>username = echo un, sid = c\<rparr> (members_of (rooms s) rid))
                        (rooms s)\<rparr>)
           | Inr g \<Rightarrow>
               Inr (s\<lparr>rooms := AList.update rid
                        (AList.update uid \<lparr>username = echo un, sid = c\<rparr> (members_of (rooms s) rid))
                        (rooms s),
                      sio := g\<rparr>,
                    [emit ''existing-users''
                       (JDict [(''users'', JList (existing_users (members_of (rooms s) rid)))]) c,
                     emit_room g ''user-joined'' (user_joined uid (echo un)) rid (Some c)])))"
proof (cases "map_of (rooms s) rid")
  case None
  then have "rid \<notin> set (map fst (rooms s))"
    by (simp add: map_of_eq_None_iff)
  with None assms show ?thesis
    by (simp add: handle_join_room_def members_of_def update_conv' Let_def split: sum.splits)
next
  case (Some room)
  then have "rid \<in> set (map fst (rooms s))"
    using keys_iff_lookup [of rid "rooms s"] by simp
  with Some assms show ?thesis
    by (simp add: handle_join_room_def members_of_def Let_def split: sum.splits)
qed

lemma remove_member_eq:
  "remove_member rid uid room rs =
     (if AList.delete uid room = [] then AList.delete rid rs
      else AList.update rid (AList.delete uid room) rs)"
  by (simp add: remove_member_def Let_def delete_update_same)

lemma resolve_Str:
  "resolve rs (Str rid) (Str uid) =
     Inr (case map_of rs rid of None \<Rightarrow> None
          | Some room \<Rightarrow> (case map_of room uid of None \<Rightarrow> None
                          | Some info \<Rightarrow> Some (rid, room, uid, info)))"
  by (simp add: resolve_def split: option.splits)

lemma resolve_mem:
  "resolve rs rv uv = Inr (Some (rid, room, uid, info)) \<Longrightarrow>
   map_of rs rid = Some room \<and> map_of room uid = Some info"
  by (auto simp: resolve_def split: option.splits)


lemma find_user_mem: "find_user c room = Some (uid, info) \<Longrightarrow> (uid, info) \<in> set room \<and> sid info = c"
  by (induction room) (auto split: if_splits)

lemma scan_rooms_mem:
  "scan_rooms c rs = Some (rid, room, uid, info) \<Longrightarrow>
   (rid, room) \<in> set rs \<and> (uid, info) \<in> set room \<and> sid info = c"
  by (induction rs) (auto split: option.splits dest: find_user_mem)

lemma not_is_member_resolve: "\<not> is_member rs rid tid \<Longrightarrow> resolve rs (Str rid) (Str tid) = Inr None"
proof (cases "map_of rs rid")
  case None
  then show ?thesis by (simp add: resolve_Str)
next
  case (Some room)
  assume "\<not> is_member rs rid tid"
  with Some have "map_of room tid = None"
    by (simp add: is_member_def map_of_eq_None_iff)
  with Some show ?thesis by (simp add: resolve_Str)
qed

section \<open>The registry invariant\<close>

text \<open>
  Every event, also one whose handler raises, keeps the registry a dictionary of
  dictionaries without rooms of more than six members.
\<close>

lemma registry_ok_update:
  "registry_ok rs \<Longrightarrow> distinct (map fst room) \<Longrightarrow> length room \<le> 6 \<Longrightarrow>
   registry_ok (AList.update rid room rs)"
  by (simp add: registry_ok_def wf_rooms_def within_capacity_def distinct_update list_all_update)

lemma registry_ok_delete: "registry_ok rs \<Longrightarrow> registry_ok (AList.delete rid rs)"
  by (simp add: registry_ok_def wf_rooms_def within_capacity_def distinct_delete list_all_delete)

lemma registry_ok_lookup:
  "registry_ok rs \<Longrightarrow> map_of rs rid = Some room \<Longrightarrow> distinct (map fst room) \<and> length room \<le> 6"
  by (auto simp: registry_ok_def wf_rooms_def within_capacity_def dest: list_all_lookup)

lemma registry_ok_remove_member:
  assumes "registry_ok rs" "distinct (map fst room)" "length room \<le> 6"
  shows "registry_ok (remove_member rid uid room rs)"
proof (cases "AList.delete uid room = []")
  case True
  with assms show ?thesis by (simp add: remove_member_eq registry_ok_delete)
next
  case False
  have "length (AList.delete uid room) \<le> 6"
    using assms(3) length_delete_le [of uid room] by simp
  with False assms show ?thesis
    by (simp add: remove_member_eq registry_ok_update distinct_delete)
qed

lemma registry_ok_join:
  assumes "registry_ok (rooms s)"
  shows "registry_ok (rooms (fst (settle (handle_join_room c d s))))"
proof -
  have new: "registry_ok (AList.update rid [] (rooms s))" for rid
    using assms by (simp add: registry_ok_update)
  have one: "registry_ok (AList.update rid [(uid, m)] (rooms s))" for rid uid and m :: member
    using assms by (simp add: registry_ok_update)
  have ins: "registry_ok (AList.update rid (AList.update uid m room) rs)"
    if "registry_ok rs" "map_of rs rid = Some room" "\<not> 6 \<le> length room" for rs rid uid m room
  proof -
    from registry_ok_lookup [OF that(1,2)] have "distinct (map fst room)" by simp
    then have "distinct (map fst (AList.update uid m room))" by (rule distinct_update)
    moreover have "length (AList.update uid m room) \<le> 6"
      using that(3) length_update_le [of uid m room] by simp
    ultimately show ?thesis using that(1) by (simp add: registry_ok_update)
  qed
  show ?thesis
    using assms new one ins
    by (auto simp: handle_join_room_def settle_def Let_def update_conv'
        split: option.splits sum.splits if_splits)
qed

lemma registry_ok_leave:
  assumes "registry_ok (rooms s)"
  shows "registry_ok (rooms (fst (settle (handle_leave_room c d s))))"
  using assms
  by (auto simp: handle_leave_room_def settle_def Let_def
      split: option.splits sum.splits prod.splits
      dest!: resolve_mem dest: registry_ok_lookup intro!: registry_ok_remove_member)

lemma registry_ok_disconnect:
  assumes "registry_ok (rooms s)"
  shows "registry_ok (rooms (fst (handle_disconnect c s)))"
proof (cases "scan_rooms c (rooms s)")
  case None
  with assms show ?thesis by (simp add: handle_disconnect_def)
next
  case (Some t)
  then obtain rid room uid info where t: "scan_rooms c (rooms s) = Some (rid, room, uid, info)"
    by (cases t) auto
  then have "(rid, room) \<in> set (rooms s)" by (auto dest: scan_rooms_mem)
  then have "map_of (rooms s) rid = Some room"
    using assms by (simp add: registry_ok_def wf_rooms_def)
  then have "distinct (map fst room)" "length room \<le> 6"
    using registry_ok_lookup [OF assms] by simp_all
  with assms t show ?thesis
    by (simp add: handle_disconnect_def registry_ok_remove_member)
qed

lemma relay_rooms:
  "rooms (fst (settle (handle_offer c d s))) = rooms s"
  "rooms (fst (settle (handle_answer c d s))) = rooms s"
  "rooms (fst (settle (handle_ice_candidate c d s))) = rooms s"
  "rooms (fst (settle (handle_get_room_info c d s))) = rooms s"
  by (auto simp: handle_offer_def handle_answer_def handle_ice_candidate_def
      handle_get_room_info_def settle_def split: option.splits sum.splits prod.splits)

lemma registry_ok_step:
  assumes "registry_ok (rooms s)"
  shows "registry_ok (rooms (fst (step ev s)))"
proof (cases ev)
  case (Disconnect c)
  with registry_ok_disconnect [OF assms, of c] show ?thesis
    by (simp add: split_def Let_def)
qed (use assms in \<open>simp_all add: registry_ok_join registry_ok_leave relay_rooms\<close>)

lemma registry_ok_run: "registry_ok (rooms s) \<Longrightarrow> registry_ok (rooms (run evs s))"
  by (induction evs arbitrary: s) (simp_all add: registry_ok_step)

lemma registry_ok_init: "registry_ok (rooms init)"
  by (simp add: init_def registry_ok_def wf_rooms_def within_capacity_def)

section \<open>Evaluating the example traces\<close>

lemma join_data_fields:
  "join_data rid uid un ''roomId'' = Some (Str rid)"
  "join_data rid uid un ''userId'' = Some (Str uid)"
  "join_data rid uid un ''username'' = Some (Str un)"
  by (simp_all add: join_data_def)

lemma leave_data_fields:
  "leave_data rid uid ''roomId'' = Some (Str rid)"
  "leave_data rid uid ''userId'' = Some (Str uid)"
  by (simp_all add: leave_data_def)

lemma relay_data_fields:
  "relay_data ''offer'' rid tid f b ''roomId'' = Some (Str rid)"
  "relay_data ''offer'' rid tid f b ''targetUserId'' = Some (Str tid)"
  "relay_data ''offer'' rid tid f b ''fromUserId'' = Some (Str f)"
  "relay_data ''offer'' rid tid f b ''fromUsername'' = Some (Str ''Ann'')"
  "relay_data ''offer'' rid tid f b ''offer'' = Some (Str b)"
  by (simp_all add: relay_data_def)

lemmas trace_simps =
  init_def settle_def members_of_def connect_def close_def join_room_def leave_room_def
  remove_member_eq handle_leave_room_def resolve_Str handle_disconnect_def Let_def
  leave_data_fields handle_join_room_eq [OF join_data_fields]

lemma six_joins_rooms:
  "rooms (run six_joins init) =
     [(''R'', [(''u1'', \<lparr>username = JStr ''Ann'', sid = ''c1''\<rparr>), (''u2'', \<lparr>username = JStr ''Bob'', sid = ''c2''\<rparr>),
               (''u3'', \<lparr>username = JStr ''Cy'', sid = ''c3''\<rparr>), (''u4'', \<lparr>username = JStr ''Di'', sid = ''c4''\<rparr>),
               (''u5'', \<lparr>username = JStr ''Ed'', sid = ''c5''\<rparr>), (''u6'', \<lparr>username = JStr ''Flo'', sid = ''c6''\<rparr>)])]"
  by (simp add: six_joins_def trace_simps)

lemma one_join_state:
  "rooms (run one_join init) = [(''R'', [(''u1'', \<lparr>username = JStr ''Ann'', sid = ''c1''\<rparr>)])]"
  "members (sio (run one_join init)) ''R'' = {''c1''}"
  "connected (sio (run one_join init)) = {''c1'', ''c2'', ''c9''}"
  by (auto simp: one_join_def trace_simps)

lemma two_joins_state:
  "rooms (run two_joins init) = [(''R'', [(''u1'', \<lparr>username = JStr ''Ann'', sid = ''c1''\<rparr>),
                                          (''u2'', \<lparr>username = JStr ''Bob'', sid = ''c2''\<rparr>)])]"
  "members (sio (run two_joins init)) ''R'' = {''c1'', ''c2''}"
  "members (sio (run two_joins init)) ''c2'' = {''c2''}"
  "connected (sio (run two_joins init)) = {''c1'', ''c2'', ''c3'', ''c9''}"
  by (auto simp: two_joins_def trace_simps)

lemma join_unnamed_room_rooms:
  "rooms (run join_unnamed_room init) = [([], [(''u1'', \<lparr>username = JStr ''Ann'', sid = ''c1''\<rparr>)])]"
  by (simp add: join_unnamed_room_def trace_simps)

lemma two_ids_one_leave_state:
  "rooms (run two_ids_one_leave init) = [(''R'', [(''A'', \<lparr>username = JStr ''Ann'', sid = ''a''\<rparr>)])]"
  "members (sio (run two_ids_one_leave init)) ''R'' = {}"
  "connected (sio (run two_ids_one_leave init)) = {''a'', ''b''}"
  by (auto simp: two_ids_one_leave_def trace_simps)

lemma desync_two_members_state:
  "rooms (run desync_two_members init) =
     [(''R'', [(''A'', \<lparr>username = JStr ''Ann'', sid = ''a''\<rparr>), (''B'', \<lparr>username = JStr ''Bob'', sid = ''b''\<rparr>)])]"
  "members (sio (run desync_two_members init)) ''R'' = {''b''}"
  "connected (sio (run desync_two_members init)) = {''a'', ''b''}"
  by (auto simp: desync_two_members_def trace_simps)

lemma stale_member_state:
  "rooms (run stale_member init) =
     [(''R'', [(''A2'', \<lparr>username = JStr ''Ann'', sid = ''a''\<rparr>), (''B'', \<lparr>username = JStr ''Bob'', sid = ''b''\<rparr>)])]"
  "members (sio (run stale_member init)) ''a'' = {}"
  "members (sio (run stale_member init)) ''b'' = {''b''}"
  "connected (sio (run stale_member init)) = {''b''}"
  by (auto simp: stale_member_def trace_simps)

section \<open>The claims\<close>

subsection \<open>Capacity\<close>

text \<open>
  C1. Whatever events the server has handled since it started, no room of the registry
  has more than six members. A join-room event for a room that already holds six members
  (the handler tests \<^verbatim>\<open>len(rooms[room_id]) >= 6\<close>) emits one \<^verbatim>\<open>room-full\<close> message,
  delivered to the requesting connection only, and leaves the server state, the registry
  included, as it was.
\<close>

theorem join_room_capacity:
  "within_capacity (rooms (run evs init)) \<and>
   (d ''roomId'' = Some (Str rid) \<and> d ''userId'' = Some uid \<and> d ''username'' = Some un \<and>
    map_of (rooms s) rid = Some room \<and> 6 \<le> length room \<longrightarrow>
    handle_join_room c d s =
      Inr (s, [\<lparr>event = ''room-full'', payload = room_full, recipients = {c}\<rparr>]))"
proof
  have "registry_ok (rooms (run evs init))"
    by (rule registry_ok_run [OF registry_ok_init])
  then show "within_capacity (rooms (run evs init))"
    by (simp add: registry_ok_def)
next
  show "d ''roomId'' = Some (Str rid) \<and> d ''userId'' = Some uid \<and> d ''username'' = Some un \<and>
    map_of (rooms s) rid = Some room \<and> 6 \<le> length room \<longrightarrow>
    handle_join_room c d s =
      Inr (s, [\<lparr>event = ''room-full'', payload = room_full, recipients = {c}\<rparr>])"
  proof
    assume h: "d ''roomId'' = Some (Str rid) \<and> d ''userId'' = Some uid \<and> d ''username'' = Some un \<and>
      map_of (rooms s) rid = Some room \<and> 6 \<le> length room"
    then have "rid \<in> set (map fst (rooms s))"
      using keys_iff_lookup [of rid "rooms s"] by simp
    with h show "handle_join_room c d s =
      Inr (s, [\<lparr>event = ''room-full'', payload = room_full, recipients = {c}\<rparr>])"
      by (simp add: handle_join_room_def emit_def)
  qed
qed

theorem join_room_capacity_witness:
  "within_capacity (rooms (run six_joins init)) \<and>
   map_of (rooms (run six_joins init)) ''R'' \<noteq> None \<and>
   length (members_of (rooms (run six_joins init)) ''R'') = 6 \<and>
   handle_join_room ''c7'' (join_data ''R'' ''u7'' ''Gus'') (run six_joins init) =
     Inr (run six_joins init, [\<lparr>event = ''room-full'', payload = room_full, recipients = {''c7''}\<rparr>])"
  using join_room_capacity [where evs = six_joins and d = "join_data ''R'' ''u7'' ''Gus''"
      and rid = "''R''" and uid = "Str ''u7''" and un = "Str ''Gus''" and s = "run six_joins init"
      and room = "members_of (rooms (run six_joins init)) ''R''" and c = "''c7''"]
  by (simp add: join_data_fields six_joins_rooms members_of_def)

subsection \<open>No empty room\<close>

text \<open>
  C2. The code does not keep what the claim says. The join handler creates the room
  (\<^verbatim>\<open>rooms[room_id] = {}\<close>, line 86) before it stores the member (line 101). For a
  join-room event whose \<^verbatim>\<open>userId\<close> is a JSON array the store raises TypeError, and
  the room that was created for the event stays in the registry with no member. The
  leave-room and disconnect handlers do delete a room they have emptied.
\<close>

theorem join_room_leaves_empty_room:
  "rooms (run [Connect ''c1''] init) = [] \<and>
   handle_join_room ''c1'' unhashable_join (run [Connect ''c1''] init) =
     Inl (TypeError, (run [Connect ''c1''] init)\<lparr>rooms := [(''N'', [])]\<rparr>) \<and>
   rooms (fst (step (JoinRoom ''c1'' unhashable_join) (run [Connect ''c1''] init))) = [(''N'', [])] \<and>
   \<not> no_empty_rooms (rooms (fst (step (JoinRoom ''c1'' unhashable_join) (run [Connect ''c1''] init))))"
  by (simp add: unhashable_join_def handle_join_room_def init_def settle_def no_empty_rooms_def)

subsection \<open>What a join sends\<close>

text \<open>
  C3. The code does not keep what the claim says. \<^verbatim>\<open>user-joined\<close> is broadcast to the
  transport room of the room id, and \<^verbatim>\<open>leave_room\<close> takes the requesting connection
  out of that room whichever user id the event names. Connection \<open>a\<close> joins room \<open>R\<close>
  as user \<open>A\<close> and as user \<open>A2\<close>, then leaves as \<open>A2\<close>: \<open>A\<close> is still a member, stored
  with the live connection \<open>a\<close>, and \<open>a\<close> is no longer in the transport room. When \<open>b\<close>
  joins as \<open>B\<close>, it receives \<^verbatim>\<open>existing-users\<close> with \<open>A\<close> in it, and the
  \<^verbatim>\<open>user-joined\<close> message for \<open>B\<close> is delivered to nobody.
\<close>

theorem join_room_misses_member:
  "rooms (run two_ids_one_leave init) = [(''R'', [(''A'', \<lparr>username = JStr ''Ann'', sid = ''a''\<rparr>)])] \<and>
   ''a'' \<in> connected (sio (run two_ids_one_leave init)) \<and>
   snd (step (JoinRoom ''b'' (join_data ''R'' ''B'' ''Bob'')) (run two_ids_one_leave init)) =
     [\<lparr>event = ''existing-users'',
       payload = JDict [(''users'', JList [JDict [(''userId'', JStr ''A''), (''username'', JStr ''Ann'')]])],
       recipients = {''b''}\<rparr>,
      \<lparr>event = ''user-joined'',
       payload = JDict [(''userId'', JStr ''B''), (''username'', JStr ''Bob'')],
       recipients = {}\<rparr>]"
  by (simp add: two_ids_one_leave_state settle_def members_of_def join_room_def emit_def
      emit_room_def existing_users_def user_joined_def handle_join_room_eq [OF join_data_fields])

subsection \<open>Join, then leave\<close>



subsection \<open>Leaving and disconnecting\<close>

text \<open>
  C5. The code does not keep what the claim says, by the defect of C3. In the state of C3
  after \<open>b\<close> has joined, \<open>b\<close> is stored with exactly one (room, user) pair. Its
  leave-room and its disconnect give the same registry, with \<open>A\<close> the remaining member,
  and emit the same \<^verbatim>\<open>user-left\<close> payload; but the broadcast goes to the transport
  room, so on neither path does it reach the live connection \<open>a\<close> of the remaining
  member: leave-room sends it to nobody, the disconnect handler at most to the closing
  connection \<open>b\<close> itself.
\<close>

theorem leave_and_disconnect_miss_member:
  "rooms (run desync_two_members init) =
     [(''R'', [(''A'', \<lparr>username = JStr ''Ann'', sid = ''a''\<rparr>), (''B'', \<lparr>username = JStr ''Bob'', sid = ''b''\<rparr>)])] \<and>
   memberships ''b'' (rooms (run desync_two_members init)) = [(''R'', ''B'')] \<and>
   ''a'' \<in> connected (sio (run desync_two_members init)) \<and>
   rooms (fst (step (LeaveRoom ''b'' (leave_data ''R'' ''B'')) (run desync_two_members init))) =
     [(''R'', [(''A'', \<lparr>username = JStr ''Ann'', sid = ''a''\<rparr>)])] \<and>
   snd (step (LeaveRoom ''b'' (leave_data ''R'' ''B'')) (run desync_two_members init)) =
     [\<lparr>event = ''user-left'',
       payload = JDict [(''userId'', JStr ''B''), (''username'', JStr ''Bob'')],
       recipients = {}\<rparr>] \<and>
   rooms (fst (step (Disconnect ''b'') (run desync_two_members init))) =
     [(''R'', [(''A'', \<lparr>username = JStr ''Ann'', sid = ''a''\<rparr>)])] \<and>
   map event (snd (step (Disconnect ''b'') (run desync_two_members init))) = [''user-left''] \<and>
   map payload (snd (step (Disconnect ''b'') (run desync_two_members init))) =
     [JDict [(''userId'', JStr ''B''), (''username'', JStr ''Bob'')]] \<and>
   \<Union> (set (map recipients (snd (step (Disconnect ''b'') (run desync_two_members init)))))
     \<subseteq> {''b''}"
  by (simp add: desync_two_members_state memberships_def settle_def handle_leave_room_def
      resolve_Str leave_data_fields handle_disconnect_def remove_member_eq leave_room_def
      emit_room_def user_left_def Let_def)

subsection \<open>Relays that find no target\<close>

text \<open>
  C6. A relay event (offer, answer or ice-candidate) whose room id is not in the registry,
  or whose target user id is not a member of that room, returns normally, emits nothing
  to anybody and leaves the server state as it was.
\<close>

theorem relay_unknown_target_dropped:
  assumes "d ''roomId'' = Some (Str rid)" "d ''targetUserId'' = Some (Str tid)"
    and "\<not> is_member (rooms s) rid tid"
  shows "handle_offer c d s = Inr (s, []) \<and> handle_answer c d s = Inr (s, []) \<and>
         handle_ice_candidate c d s = Inr (s, [])"
  using assms not_is_member_resolve [of "rooms s" rid tid]
  by (simp add: handle_offer_def handle_answer_def handle_ice_candidate_def)

theorem relay_unknown_target_dropped_witness:
  "\<not> is_member (rooms (run two_joins init)) ''R'' ''u9'' \<and>
   \<not> is_member (rooms (run two_joins init)) ''S'' ''u2'' \<and>
   handle_offer ''c1'' (relay_data ''offer'' ''R'' ''u9'' ''u1'' ''sdp'') (run two_joins init)
     = Inr (run two_joins init, []) \<and>
   handle_answer ''c1'' (relay_data ''offer'' ''R'' ''u9'' ''u1'' ''sdp'') (run two_joins init)
     = Inr (run two_joins init, []) \<and>
   handle_ice_candidate ''c1'' (relay_data ''offer'' ''S'' ''u2'' ''u1'' ''sdp'') (run two_joins init)
     = Inr (run two_joins init, [])"
  using relay_unknown_target_dropped [where d = "relay_data ''offer'' ''R'' ''u9'' ''u1'' ''sdp''"
      and rid = "''R''" and tid = "''u9''" and s = "run two_joins init" and c = "''c1''"]
    relay_unknown_target_dropped [where d = "relay_data ''offer'' ''S'' ''u2'' ''u1'' ''sdp''"
      and rid = "''S''" and tid = "''u2''" and s = "run two_joins init" and c = "''c1''"]
  by (simp add: relay_data_fields two_joins_state is_member_def)

subsection \<open>Relays that find their target\<close>

text \<open>
  C7. The code does not keep what the claim says. The disconnect handler returns after
  the first member it removes, so a connection stored under two user ids leaves the
  second one in the registry when it closes. Connection \<open>a\<close> joins room \<open>R\<close> as \<open>A\<close> and
  as \<open>A2\<close>, \<open>b\<close> joins as \<open>B\<close>, and \<open>a\<close> disconnects: \<open>A2\<close> is still a member, stored
  with the closed connection \<open>a\<close>. An offer of \<open>b\<close> to \<open>A2\<close> resolves to that member
  and is emitted to the room named \<open>a\<close>, which is empty: it is delivered to nobody.
\<close>

theorem relay_to_closed_connection:
  "rooms (run stale_member init) =
     [(''R'', [(''A2'', \<lparr>username = JStr ''Ann'', sid = ''a''\<rparr>), (''B'', \<lparr>username = JStr ''Bob'', sid = ''b''\<rparr>)])] \<and>
   ''a'' \<notin> connected (sio (run stale_member init)) \<and>
   handle_offer ''b'' (relay_data ''offer'' ''R'' ''A2'' ''B'' ''sdp'') (run stale_member init) =
     Inr (run stale_member init,
          [\<lparr>event = ''offer'',
            payload = JDict [(''offer'', JStr ''sdp''), (''fromUserId'', JStr ''B''),
                             (''fromUsername'', JStr ''Ann'')],
            recipients = {}\<rparr>])"
  by (simp add: stale_member_state handle_offer_def resolve_Str relay_data_fields emit_room_def)

subsection \<open>Room information\<close>

text \<open>
  C8, as amended. A get-room-info event whose room id is not in the registry is answered
  to the requester with a \<^verbatim>\<open>room-info\<close> message of userCount 0 and an empty user
  list. A room id that is in the registry and is not the empty string is answered with
  that room's member count and the usernames of its members. In both cases the handler
  returns normally and changes nothing.
\<close>

theorem room_info_reply:
  "(d ''roomId'' = Some (Str rid) \<and> map_of (rooms s) rid = None \<longrightarrow>
      handle_get_room_info c d s =
        Inr (s, [\<lparr>event = ''room-info'',
                   payload = JDict [(''roomId'', JStr rid), (''userCount'', JInt 0), (''users'', JList [])],
                   recipients = {c}\<rparr>])) \<and>
   (d ''roomId'' = Some (Str rid) \<and> rid \<noteq> [] \<and> map_of (rooms s) rid = Some room \<longrightarrow>
      handle_get_room_info c d s =
        Inr (s, [\<lparr>event = ''room-info'',
                   payload = JDict [(''roomId'', JStr rid), (''userCount'', JInt (length room)),
                                    (''users'', JList (map (\<lambda>(uid, info). username info) room))],
                   recipients = {c}\<rparr>]))"
  by (auto simp: handle_get_room_info_def room_info_def emit_def)

theorem room_info_reply_witness:
  "map_of (rooms (run two_joins init)) ''S'' = None \<and>
   handle_get_room_info ''c3'' [''roomId'' \<mapsto> Str ''S''] (run two_joins init) =
     Inr (run two_joins init,
      [\<lparr>event = ''room-info'',
        payload = JDict [(''roomId'', JStr ''S''), (''userCount'', JInt 0), (''users'', JList [])],
        recipients = {''c3''}\<rparr>]) \<and>
   handle_get_room_info ''c3'' [''roomId'' \<mapsto> Str ''R''] (run two_joins init) =
     Inr (run two_joins init,
      [\<lparr>event = ''room-info'',
        payload = JDict [(''roomId'', JStr ''R''), (''userCount'', JInt 2),
                         (''users'', JList [JStr ''Ann'', JStr ''Bob''])],
        recipients = {''c3''}\<rparr>])"
  using room_info_reply [where d = "[''roomId'' \<mapsto> Str ''S'']" and rid = "''S''"
      and s = "run two_joins init" and c = "''c3''"]
    room_info_reply [where d = "[''roomId'' \<mapsto> Str ''R'']" and rid = "''R''"
      and s = "run two_joins init" and c = "''c3''"
      and room = "[(''u1'', \<lparr>username = JStr ''Ann'', sid = ''c1''\<rparr>), (''u2'', \<lparr>username = JStr ''Bob'', sid = ''c2''\<rparr>)]"]
  by (simp add: two_joins_state)

text \<open>
  The claim as first stated, that every room id in the registry gets its count and
  names, fails for the room whose id is the empty string: after a join into that room
  the registry holds it with one member, and the reply still says userCount 0.
\<close>

theorem room_info_reply_counterexample:
  "map_of (rooms (run join_unnamed_room init)) [] = Some [(''u1'', \<lparr>username = JStr ''Ann'', sid = ''c1''\<rparr>)] \<and>
   snd (settle (handle_get_room_info ''c2'' [''roomId'' \<mapsto> Str []] (run join_unnamed_room init))) =
     [\<lparr>event = ''room-info'',
       payload = JDict [(''roomId'', JStr []), (''userCount'', JInt 0), (''users'', JList [])],
       recipients = {''c2''}\<rparr>] \<and>
   snd (settle (handle_get_room_info ''c2'' [''roomId'' \<mapsto> Str []] (run join_unnamed_room init))) \<noteq>
     [\<lparr>event = ''room-info'',
       payload = JDict [(''roomId'', JStr []), (''userCount'', JInt 1), (''users'', JList [JStr ''Ann''])],
       recipients = {''c2''}\<rparr>]"
  by (simp add: join_unnamed_room_rooms handle_get_room_info_def room_info_def emit_def settle_def)

subsection \<open>Joining again under the same user id\<close>

text \<open>
  C9, as amended. Let the room id be a non-empty string that is not the id of a live
  connection. A join-room event whose user id is already a member of that room, the room
  holding fewer than six members, overwrites the stored username and connection id of
  that member in place: the member count and the order of the members are unchanged and
  the other members are untouched. The only messages are \<^verbatim>\<open>existing-users\<close>, sent to
  the requesting connection, and \<^verbatim>\<open>user-joined\<close>, delivered to every connection in
  the transport room of that room id except the requesting one, the old connection
  among them while it is in that room.
\<close>

theorem rejoin_overwrites_in_place:
  assumes "d ''roomId'' = Some (Str rid)" "d ''userId'' = Some (Str uid)" "d ''username'' = Some un"
    and "map_of (rooms s) rid = Some room" "map_of room uid = Some old" "length room < 6"
    and "rid \<noteq> []" "rid \<notin> connected (sio s)"
  shows "handle_join_room c d s =
    Inr (s\<lparr>rooms := AList.update rid (AList.update uid \<lparr>username = echo un, sid = c\<rparr> room) (rooms s),
           sio := (sio s)\<lparr>members := (members (sio s))(rid := insert c (members (sio s) rid))\<rparr>\<rparr>,
         [\<lparr>event = ''existing-users'',
           payload = JDict [(''users'',
             JList (map (\<lambda>(u, i). JDict [(''userId'', JStr u), (''username'', username i)]) room))],
           recipients = {c}\<rparr>,
          \<lparr>event = ''user-joined'',
           payload = JDict [(''userId'', JStr uid), (''username'', echo un)],
           recipients = members (sio s) rid - {c}\<rparr>]) \<and>
    length (AList.update uid \<lparr>username = echo un, sid = c\<rparr> room) = length room \<and>
    map fst (AList.update uid \<lparr>username = echo un, sid = c\<rparr> room) = map fst room \<and>
    map_of (AList.update uid \<lparr>username = echo un, sid = c\<rparr> room) =
      (map_of room)(uid \<mapsto> \<lparr>username = echo un, sid = c\<rparr>)"
proof -
  from assms(5) have k: "uid \<in> set (map fst room)"
    using keys_iff_lookup [of uid room] by simp
  from assms(1-4,6-8) have "handle_join_room c d s =
    Inr (s\<lparr>rooms := AList.update rid (AList.update uid \<lparr>username = echo un, sid = c\<rparr> room) (rooms s),
           sio := (sio s)\<lparr>members := (members (sio s))(rid := insert c (members (sio s) rid))\<rparr>\<rparr>,
         [\<lparr>event = ''existing-users'',
           payload = JDict [(''users'',
             JList (map (\<lambda>(u, i). JDict [(''userId'', JStr u), (''username'', username i)]) room))],
           recipients = {c}\<rparr>,
          \<lparr>event = ''user-joined'',
           payload = JDict [(''userId'', JStr uid), (''username'', echo un)],
           recipients = members (sio s) rid - {c}\<rparr>])"
    by (simp add: handle_join_room_eq members_of_def emit_def emit_room_def join_room_def
        existing_users_def user_joined_def)
  with k show ?thesis
    by (simp add: length_update_known keys_update_known update_conv')
qed

theorem rejoin_overwrites_in_place_witness:
  "map_of (rooms (run two_joins init)) ''R'' =
     Some [(''u1'', \<lparr>username = JStr ''Ann'', sid = ''c1''\<rparr>), (''u2'', \<lparr>username = JStr ''Bob'', sid = ''c2''\<rparr>)] \<and>
   ''R'' \<notin> connected (sio (run two_joins init)) \<and>
   rooms (fst (step (JoinRoom ''c9'' (join_data ''R'' ''u1'' ''Anna'')) (run two_joins init))) =
     [(''R'', [(''u1'', \<lparr>username = JStr ''Anna'', sid = ''c9''\<rparr>), (''u2'', \<lparr>username = JStr ''Bob'', sid = ''c2''\<rparr>)])] \<and>
   snd (step (JoinRoom ''c9'' (join_data ''R'' ''u1'' ''Anna'')) (run two_joins init)) =
     [\<lparr>event = ''existing-users'',
       payload = JDict [(''users'', JList [JDict [(''userId'', JStr ''u1''), (''username'', JStr ''Ann'')],
                                            JDict [(''userId'', JStr ''u2''), (''username'', JStr ''Bob'')]])],
       recipients = {''c9''}\<rparr>,
      \<lparr>event = ''user-joined'',
       payload = JDict [(''userId'', JStr ''u1''), (''username'', JStr ''Anna'')],
       recipients = {''c1'', ''c2''}\<rparr>]"
  using rejoin_overwrites_in_place [where d = "join_data ''R'' ''u1'' ''Anna''" and rid = "''R''"
      and uid = "''u1''" and un = "Str ''Anna''" and s = "run two_joins init" and c = "''c9''"
      and room = "[(''u1'', \<lparr>username = JStr ''Ann'', sid = ''c1''\<rparr>), (''u2'', \<lparr>username = JStr ''Bob'', sid = ''c2''\<rparr>)]"
      and old = "\<lparr>username = JStr ''Ann'', sid = ''c1''\<rparr>"]
  by (simp add: join_data_fields two_joins_state settle_def)

text \<open>
  The claim as first stated, that nothing is sent to the old connection, fails: user
  \<open>u1\<close> joined room \<open>R\<close> over connection \<open>c1\<close>; when \<open>u1\<close> joins again over \<open>c9\<close>,
  the stored connection becomes \<open>c9\<close> and \<open>c1\<close> receives the \<^verbatim>\<open>user-joined\<close>
  broadcast. When \<open>u1\<close> joins again over \<open>c1\<close> itself, \<open>c1\<close> receives
  \<^verbatim>\<open>existing-users\<close>.
\<close>

theorem rejoin_overwrites_in_place_counterexample:
  "map_of (rooms (run one_join init)) ''R'' = Some [(''u1'', \<lparr>username = JStr ''Ann'', sid = ''c1''\<rparr>)] \<and>
   rooms (fst (step (JoinRoom ''c9'' (join_data ''R'' ''u1'' ''Ann'')) (run one_join init))) =
     [(''R'', [(''u1'', \<lparr>username = JStr ''Ann'', sid = ''c9''\<rparr>)])] \<and>
   map event (snd (step (JoinRoom ''c9'' (join_data ''R'' ''u1'' ''Ann'')) (run one_join init)))
     = [''existing-users'', ''user-joined''] \<and>
   map recipients (snd (step (JoinRoom ''c9'' (join_data ''R'' ''u1'' ''Ann'')) (run one_join init)))
     = [{''c9''}, {''c1''}] \<and>
   map recipients (snd (step (JoinRoom ''c1'' (join_data ''R'' ''u1'' ''Ann'')) (run one_join init)))
     = [{''c1''}, {}]"
  by (simp add: one_join_state settle_def members_of_def join_room_def emit_def
      emit_room_def handle_join_room_eq [OF join_data_fields])

subsection \<open>A falsy room id\<close>

text \<open>
  C10. A get-room-info event whose \<^verbatim>\<open>roomId\<close> is missing or is the empty string is
  answered with userCount 0 and an empty user list, whatever the registry holds, a
  populated room under the empty string included: the handler tests the truth value of
  the room id before it looks the room up.
\<close>

theorem falsy_room_id_zeroed:
  assumes "d ''roomId'' = None \<or> d ''roomId'' = Some (Str [])"
  shows "handle_get_room_info c d s =
     Inr (s, [\<lparr>event = ''room-info'',
            payload = JDict [(''roomId'', (case d ''roomId'' of None \<Rightarrow> JNone | Some v \<Rightarrow> echo v)),
                             (''userCount'', JInt 0), (''users'', JList [])],
            recipients = {c}\<rparr>])"
  using assms by (auto simp: handle_get_room_info_def room_info_def emit_def)

theorem falsy_room_id_zeroed_witness:
  "map_of (rooms (run join_unnamed_room init)) [] = Some [(''u1'', \<lparr>username = JStr ''Ann'', sid = ''c1''\<rparr>)] \<and>
   handle_get_room_info ''c2'' [''roomId'' \<mapsto> Str []] (run join_unnamed_room init) =
     Inr (run join_unnamed_room init,
      [\<lparr>event = ''room-info'',
        payload = JDict [(''roomId'', JStr []), (''userCount'', JInt 0), (''users'', JList [])],
        recipients = {''c2''}\<rparr>]) \<and>
   handle_get_room_info ''c2'' Map.empty (run join_unnamed_room init) =
     Inr (run join_unnamed_room init,
      [\<lparr>event = ''room-info'',
        payload = JDict [(''roomId'', JNone), (''userCount'', JInt 0), (''users'', JList [])],
        recipients = {''c2''}\<rparr>])"
  using falsy_room_id_zeroed [where d = "[''roomId'' \<mapsto> Str []]" and c = "''c2''"
      and s = "run join_unnamed_room init"]
    falsy_room_id_zeroed [where d = "Map.empty" and c = "''c2''" and s = "run join_unnamed_room init"]
  by (simp add: join_unnamed_room_rooms)

end
